theory Spec2Isabelle
  imports Complex_Main
begin

section \<open>JavaScript values that flow through currency_utils.js\<close>

text \<open>
  The module handles currency codes and company names (strings), the absent values
  \<^verbatim>\<open>undefined\<close> and \<^verbatim>\<open>null\<close>, and, because both of its look-up tables are plain
  object literals, whatever a property read finds on \<^verbatim>\<open>Object.prototype\<close>: the built-in
  functions stored there and, under \<^verbatim>\<open>__proto__\<close>, the prototype object itself.
  Strings are byte lists; a symbol outside ASCII is written as its UTF-8 bytes, as the
  source file stores it.
\<close>

datatype jsval =
    Undefined
  | Null
  | Str string
  | Builtin string
  | ObjectPrototype

text \<open>ToBoolean, the test behind \<^verbatim>\<open>if (x)\<close>, \<^verbatim>\<open>x && y\<close> and \<^verbatim>\<open>x || y\<close>.\<close>

fun to_boolean :: "jsval \<Rightarrow> bool" where
  "to_boolean Undefined = False"
| "to_boolean Null = False"
| "to_boolean (Str s) = (s \<noteq> [])"
| "to_boolean (Builtin n) = True"
| "to_boolean ObjectPrototype = True"

text \<open>
  An optional string, as the JSDoc types the parameters and as the host hands settings
  over: \<open>None\<close> stands for \<^verbatim>\<open>undefined\<close> or \<^verbatim>\<open>null\<close>, which the module never tells apart.
\<close>

fun of_optional :: "string option \<Rightarrow> jsval" where
  "of_optional None = Undefined"
| "of_optional (Some s) = Str s"

text \<open>
  The function-valued properties of \<^verbatim>\<open>Object.prototype\<close> other than \<^verbatim>\<open>constructor\<close>.
\<close>

definition object_prototype_methods :: "string list" where
  "object_prototype_methods =
     [''hasOwnProperty'', ''isPrototypeOf'', ''propertyIsEnumerable'',
      ''toLocaleString'', ''toString'', ''valueOf'',
      ''__defineGetter__'', ''__defineSetter__'',
      ''__lookupGetter__'', ''__lookupSetter__'']"

text \<open>
  Reading property \<open>k\<close> of an object literal that has no own property \<open>k\<close>: the read
  goes on to \<^verbatim>\<open>Object.prototype\<close>.
\<close>

definition object_prototype :: "string \<Rightarrow> jsval" where
  "object_prototype k =
     (if k = ''constructor'' then Builtin ''Object''
      else if k = ''__proto__'' then ObjectPrototype
      else if k \<in> set object_prototype_methods then Builtin k
      else Undefined)"

text \<open>What a collaborator throws; the module catches every one of them alike.\<close>

datatype js_error = TypeError | ReferenceError | HostError string

section \<open>The host: frappe\<close>

text \<open>
  A company record exposes \<^verbatim>\<open>default_currency\<close>. \<^verbatim>\<open>frappe.get_doc(doctype, name)\<close>
  throws, returns nothing, or returns a record; \<^verbatim>\<open>frappe.defaults.get_default(key)\<close>
  throws or returns an optional string; reading \<^verbatim>\<open>frappe.sys_defaults.currency\<close>
  throws (when \<^verbatim>\<open>sys_defaults\<close> is missing) or gives an optional string.
\<close>

record company_doc =
  default_currency :: "string option"

record frappe =
  get_doc :: "string \<Rightarrow> string \<Rightarrow> js_error + company_doc option"
  get_default :: "string \<Rightarrow> js_error + string option"
  sys_defaults_currency :: "js_error + string option"

text \<open>The collaborator accesses a call makes, in order.\<close>

datatype call =
    GetDoc string string
  | GetDefault string
  | SysDefaults
  | Format jsval

section \<open>The currency cache\<close>

text \<open>\<^verbatim>\<open>let currencyCache = {}\<close>: the own properties of the cache object.\<close>

type_synonym currency_cache = "string \<rightharpoonup> string"

text \<open>\<^verbatim>\<open>currencyCache[company]\<close>: an own property first, then the prototype.\<close>

definition cache_read :: "currency_cache \<Rightarrow> string \<Rightarrow> jsval" where
  "cache_read c k = (case c k of Some cur \<Rightarrow> Str cur | None \<Rightarrow> object_prototype k)"

text \<open>Lines 113 to 115: \<^verbatim>\<open>currencyCache = {}\<close>, a fresh object with no own property.\<close>

definition clear_currency_cache :: "currency_cache \<Rightarrow> currency_cache" where
  "clear_currency_cache c = Map.empty"

section \<open>get_report_currency\<close>

text \<open>
  A call returns its value, the cache it leaves and the collaborator accesses it made.
\<close>

type_synonym resolution = "jsval \<times> currency_cache \<times> call list"

definition result_of :: "'a \<times> currency_cache \<times> call list \<Rightarrow> 'a" where
  "result_of r = fst r"

definition cache_of :: "'a \<times> currency_cache \<times> call list \<Rightarrow> currency_cache" where
  "cache_of r = fst (snd r)"

definition calls_of :: "'a \<times> currency_cache \<times> call list \<Rightarrow> call list" where
  "calls_of r = snd (snd r)"

text \<open>Lines 43 to 54: the system default, then the literal.\<close>

definition system_default_step :: "frappe \<Rightarrow> jsval \<times> call list" where
  "system_default_step f =
     (case sys_defaults_currency f of
        Inl e \<Rightarrow> (Str ''INR'', [SysDefaults])
      | Inr system_currency \<Rightarrow>
          if to_boolean (of_optional system_currency)
          then (of_optional system_currency, [SysDefaults])
          else (Str ''INR'', [SysDefaults]))"

text \<open>Lines 33 to 41: the global default, then the rest.\<close>

definition global_default_step :: "frappe \<Rightarrow> jsval \<times> call list" where
  "global_default_step f =
     (case get_default f ''currency'' of
        Inl e \<Rightarrow>
          (case system_default_step f of (r, l) \<Rightarrow> (r, GetDefault ''currency'' # l))
      | Inr d \<Rightarrow>
          if to_boolean (of_optional d)
          then (of_optional d, [GetDefault ''currency''])
          else (case system_default_step f of (r, l) \<Rightarrow> (r, GetDefault ''currency'' # l)))"

text \<open>Falling out of the company block with the accesses \<open>pre\<close> made so far.\<close>

definition defaults_after :: "frappe \<Rightarrow> currency_cache \<Rightarrow> call list \<Rightarrow> resolution" where
  "defaults_after f c pre = (case global_default_step f of (r, l) \<Rightarrow> (r, c, pre @ l))"

text \<open>
  Lines 14 to 31, then the defaults. A thrown error is caught (lines 28, 39 and 49) and
  the next step runs, as it does after an empty value. The one write is line 25; it is
  reached only after the read of line 16 was falsy.
\<close>

definition get_report_currency ::
  "frappe \<Rightarrow> currency_cache \<Rightarrow> string option \<Rightarrow> resolution" where
  "get_report_currency f c company =
     (case company of
        None \<Rightarrow> defaults_after f c []
      | Some k \<Rightarrow>
          if k \<noteq> [] \<and> to_boolean (cache_read c k) then (cache_read c k, c, [])
          else if k \<noteq> [] then
            (case get_doc f ''Company'' k of
               Inl e \<Rightarrow> defaults_after f c [GetDoc ''Company'' k]
             | Inr None \<Rightarrow> defaults_after f c [GetDoc ''Company'' k]
             | Inr (Some doc) \<Rightarrow>
                 (case default_currency doc of
                    None \<Rightarrow> defaults_after f c [GetDoc ''Company'' k]
                  | Some cur \<Rightarrow>
                      if cur \<noteq> []
                      then (Str cur, c(k \<mapsto> cur), [GetDoc ''Company'' k])
                      else defaults_after f c [GetDoc ''Company'' k]))
          else defaults_after f c [])"

section \<open>get_currency_symbol\<close>

text \<open>
  The table of lines 92 to 105, in the source's order. The symbols outside ASCII are
  their UTF-8 bytes: U+20B9, U+20AC, U+00A3, U+00A5, U+062F U+002E U+0625, U+FDFC.
\<close>

definition currency_symbols :: "(string \<times> string) list" where
  "currency_symbols =
     [(''INR'', [CHR 0xE2, CHR 0x82, CHR 0xB9]),
      (''USD'', ''$''),
      (''EUR'', [CHR 0xE2, CHR 0x82, CHR 0xAC]),
      (''GBP'', [CHR 0xC2, CHR 0xA3]),
      (''JPY'', [CHR 0xC2, CHR 0xA5]),
      (''CNY'', [CHR 0xC2, CHR 0xA5]),
      (''AUD'', ''A$''),
      (''CAD'', ''C$''),
      (''CHF'', ''Fr''),
      (''SGD'', ''S$''),
      (''AED'', [CHR 0xD8, CHR 0xAF, CHR 0x2E, CHR 0xD8, CHR 0xA5]),
      (''SAR'', [CHR 0xEF, CHR 0xB7, CHR 0xBC])]"

text \<open>
  ToString, for a property key and for a template literal. The text of a built-in
  function is implementation-defined, so it is the parameter \<open>src\<close>.
\<close>

fun to_string :: "(string \<Rightarrow> string) \<Rightarrow> jsval \<Rightarrow> string" where
  "to_string src Undefined = ''undefined''"
| "to_string src Null = ''null''"
| "to_string src (Str s) = s"
| "to_string src (Builtin n) = src n"
| "to_string src ObjectPrototype = ''[object Object]''"

text \<open>\<^verbatim>\<open>currency_symbols[key]\<close>: an own property first, then the prototype.\<close>

definition symbols_read :: "string \<Rightarrow> jsval" where
  "symbols_read k =
     (case map_of currency_symbols k of Some symbol \<Rightarrow> Str symbol | None \<Rightarrow> object_prototype k)"

text \<open>Line 107: \<^verbatim>\<open>currency_symbols[currency] || currency\<close>.\<close>

definition symbol_for :: "(string \<Rightarrow> string) \<Rightarrow> jsval \<Rightarrow> jsval" where
  "symbol_for src currency =
     (if to_boolean (symbols_read (to_string src currency))
      then symbols_read (to_string src currency)
      else currency)"

text \<open>Lines 86 to 108; \<open>None\<close> is a currency that is undefined or null.\<close>

definition get_currency_symbol ::
  "(string \<Rightarrow> string) \<Rightarrow> frappe \<Rightarrow> currency_cache \<Rightarrow> string option \<Rightarrow> string option
     \<Rightarrow> resolution" where
  "get_currency_symbol src f c currency company =
     (case currency of
        None \<Rightarrow>
          (case get_report_currency f c company of
             (resolved, c', l) \<Rightarrow> (symbol_for src resolved, c', l))
      | Some s \<Rightarrow> (symbol_for src (Str s), c, []))"

section \<open>format_currency_js\<close>

text \<open>
  The amount is a number of the host, of type \<open>'n\<close>. \<^verbatim>\<open>frappe.format\<close> throws or returns
  a string; \<^verbatim>\<open>Number.prototype.toLocaleString\<close> renders a number for the locale.
\<close>

record 'n host =
  frappe_format :: "'n \<Rightarrow> jsval \<Rightarrow> js_error + string"
  to_locale_string :: "'n \<Rightarrow> string"
  native_source :: "string \<Rightarrow> string"

text \<open>Lines 69 to 77: the try block and the template literal of its catch.\<close>

definition format_with :: "'n host \<Rightarrow> 'n \<Rightarrow> jsval \<Rightarrow> js_error + string" where
  "format_with h amount currency =
     (case frappe_format h amount currency of
        Inr s \<Rightarrow> Inr s
      | Inl e \<Rightarrow>
          Inr (to_string (native_source h) currency @ '' '' @ to_locale_string h amount))"

text \<open>
  Lines 64 to 78; the access \<open>Format used\<close> records the currency handed to
  \<^verbatim>\<open>frappe.format\<close>.
\<close>

definition format_currency_js ::
  "'n host \<Rightarrow> frappe \<Rightarrow> currency_cache \<Rightarrow> 'n \<Rightarrow> string option \<Rightarrow> string option
     \<Rightarrow> (js_error + string) \<times> currency_cache \<times> call list" where
  "format_currency_js h f c amount currency company =
     (case (case currency of
              None \<Rightarrow> get_report_currency f c company
            | Some s \<Rightarrow> (Str s, c, [])) of
        (used, c', l) \<Rightarrow> (format_with h amount used, c', l @ [Format used]))"

section \<open>Sequences of calls\<close>

text \<open>The caches the module can be in: it starts empty and only its functions change it.\<close>

inductive reachable :: "currency_cache \<Rightarrow> bool" where
  start: "reachable Map.empty"
| resolve: "reachable c \<Longrightarrow> reachable (cache_of (get_report_currency f c company))"
| clear: "reachable c \<Longrightarrow> reachable (clear_currency_cache c)"

text \<open>Resolutions one after the other, each against the host as it is at that moment.\<close>

fun resolve_all :: "(frappe \<times> string option) list \<Rightarrow> currency_cache \<Rightarrow> currency_cache" where
  "resolve_all [] c = c"
| "resolve_all ((f, company) # rest) c =
     resolve_all rest (cache_of (get_report_currency f c company))"

text \<open>The values of \<open>n\<close> successive calls for one company against an unchanged host.\<close>

fun call_n :: "frappe \<Rightarrow> string option \<Rightarrow> nat \<Rightarrow> currency_cache \<Rightarrow> jsval list" where
  "call_n f company 0 c = []"
| "call_n f company (Suc n) c =
     result_of (get_report_currency f c company)
       # call_n f company n (cache_of (get_report_currency f c company))"

section \<open>A concrete host\<close>

definition empty_cache :: currency_cache where
  "empty_cache = Map.empty"

text \<open>AcmeCo is the one company on record, with EUR; the defaults are USD and GBP.\<close>

definition acme_get_doc :: "string \<Rightarrow> string \<Rightarrow> js_error + company_doc option" where
  "acme_get_doc doctype name =
     (if doctype = ''Company'' \<and> name = ''AcmeCo''
      then Inr (Some \<lparr>default_currency = Some ''EUR''\<rparr>)
      else Inr None)"

definition acme_get_default :: "string \<Rightarrow> js_error + string option" where
  "acme_get_default key = (if key = ''currency'' then Inr (Some ''USD'') else Inr None)"

definition acme_frappe :: frappe where
  "acme_frappe =
     \<lparr>get_doc = acme_get_doc, get_default = acme_get_default,
      sys_defaults_currency = Inr (Some ''GBP'')\<rparr>"

text \<open>The same host after AcmeCo's record was changed to CHF.\<close>

definition acme_get_doc_chf :: "string \<Rightarrow> string \<Rightarrow> js_error + company_doc option" where
  "acme_get_doc_chf doctype name =
     (if doctype = ''Company'' \<and> name = ''AcmeCo''
      then Inr (Some \<lparr>default_currency = Some ''CHF''\<rparr>)
      else Inr None)"

definition acme_frappe_chf :: frappe where
  "acme_frappe_chf =
     \<lparr>get_doc = acme_get_doc_chf, get_default = acme_get_default,
      sys_defaults_currency = Inr (Some ''GBP'')\<rparr>"

text \<open>A host where every collaborator throws.\<close>

definition broken_get_doc :: "string \<Rightarrow> string \<Rightarrow> js_error + company_doc option" where
  "broken_get_doc doctype name = Inl (HostError ''get_doc'')"

definition broken_get_default :: "string \<Rightarrow> js_error + string option" where
  "broken_get_default key = Inl TypeError"

definition broken_frappe :: frappe where
  "broken_frappe =
     \<lparr>get_doc = broken_get_doc, get_default = broken_get_default,
      sys_defaults_currency = Inl TypeError\<rparr>"

text \<open>
  An engine that prints a built-in function the way V8 does, with no formatter
  (\<^verbatim>\<open>frappe.format\<close> throws) and an en-US rendering of the one amount used below.
\<close>

definition v8_native_source :: "string \<Rightarrow> string" where
  "v8_native_source n = ''function '' @ n @ ''() { [native code] }''"

definition no_format :: "real \<Rightarrow> jsval \<Rightarrow> js_error + string" where
  "no_format amount currency = Inl ReferenceError"

definition en_us :: "real \<Rightarrow> string" where
  "en_us amount = (if amount = 1234.5 then ''1,234.5'' else ''0'')"

definition bare_host :: "real host" where
  "bare_host =
     \<lparr>frappe_format = no_format, to_locale_string = en_us,
      native_source = v8_native_source\<rparr>"

section \<open>The fallback chain in the specification's words\<close>

text \<open>
  Ordered steps, the first success wins. A step that fails, throws or yields an empty
  value gives \<open>Undefined\<close>. The cache is the mapping from companies to currencies:
  a company is present in it when the mapping has an entry for it, and nothing else is.
\<close>

fun first_success :: "jsval list \<Rightarrow> jsval \<Rightarrow> jsval" where
  "first_success [] fallback = fallback"
| "first_success (v # vs) fallback = (if to_boolean v then v else first_success vs fallback)"

definition cached_currency :: "currency_cache \<Rightarrow> string option \<Rightarrow> jsval" where
  "cached_currency c company =
     (case company of None \<Rightarrow> Undefined
      | Some k \<Rightarrow> if k = [] then Undefined else of_optional (c k))"

definition record_currency :: "frappe \<Rightarrow> string option \<Rightarrow> jsval" where
  "record_currency f company =
     (case company of None \<Rightarrow> Undefined
      | Some k \<Rightarrow>
          if k = [] then Undefined
          else (case get_doc f ''Company'' k of
                  Inr (Some doc) \<Rightarrow> of_optional (default_currency doc)
                | _ \<Rightarrow> Undefined))"

definition global_currency :: "frappe \<Rightarrow> jsval" where
  "global_currency f =
     (case get_default f ''currency'' of Inr d \<Rightarrow> of_optional d | Inl e \<Rightarrow> Undefined)"

definition system_currency :: "frappe \<Rightarrow> jsval" where
  "system_currency f =
     (case sys_defaults_currency f of Inr d \<Rightarrow> of_optional d | Inl e \<Rightarrow> Undefined)"

definition fallback_chain :: "frappe \<Rightarrow> currency_cache \<Rightarrow> string option \<Rightarrow> jsval" where
  "fallback_chain f c company =
     first_success
       [cached_currency c company, record_currency f company,
        global_currency f, system_currency f]
       (Str ''INR'')"

text \<open>The cache the chain leaves: only a success of the record step writes.\<close>

definition chain_cache :: "frappe \<Rightarrow> currency_cache \<Rightarrow> string option \<Rightarrow> currency_cache" where
  "chain_cache f c company =
     (if to_boolean (cached_currency c company) then c
      else (case (company, record_currency f company) of
              (Some k, Str cur) \<Rightarrow> if cur = [] then c else c(k \<mapsto> cur)
            | _ \<Rightarrow> c))"

section \<open>Properties\<close>

lemma result_of_triple: "result_of (r, c, l) = r"
  by (simp add: result_of_def)

lemma cache_of_triple: "cache_of (r, c, l) = c"
  by (simp add: cache_of_def)

lemma calls_of_triple: "calls_of (r, c, l) = l"
  by (simp add: calls_of_def)

lemma system_default_step_result:
  "fst (system_default_step f) = first_success [system_currency f] (Str ''INR'')"
  by (simp add: system_default_step_def system_currency_def split: sum.splits)

lemma global_default_step_result:
  "fst (global_default_step f) =
     first_success [global_currency f, system_currency f] (Str ''INR'')"
proof -
  obtain r l where rl: "system_default_step f = (r, l)"
    by (cases "system_default_step f")
  with system_default_step_result [of f]
  have r: "r = first_success [system_currency f] (Str ''INR'')"
    by simp
  show ?thesis
    by (cases "get_default f ''currency''")
      (simp_all add: global_default_step_def global_currency_def rl r)
qed

lemma defaults_after_result:
  "result_of (defaults_after f c pre) =
     first_success [global_currency f, system_currency f] (Str ''INR'')"
proof -
  obtain r l where rl: "global_default_step f = (r, l)"
    by (cases "global_default_step f")
  with global_default_step_result [of f] show ?thesis
    by (simp add: defaults_after_def result_of_triple)
qed

lemma defaults_after_cache: "cache_of (defaults_after f c pre) = c"
  by (simp add: defaults_after_def cache_of_triple split: prod.splits)

text \<open>
  Where the key names no property of \<^verbatim>\<open>Object.prototype\<close>, the read of the cache
  object gives the entry itself.
\<close>

lemma cache_read_own:
  "object_prototype k = Undefined \<Longrightarrow> cache_read c k = of_optional (c k)"
  by (cases "c k") (simp_all add: cache_read_def)

lemma chain_result:
  assumes "object_prototype (case company of None \<Rightarrow> [] | Some k \<Rightarrow> k) = Undefined"
  shows "result_of (get_report_currency f c company) = fallback_chain f c company"
proof (cases company)
  case None
  then show ?thesis
    by (simp add: get_report_currency_def fallback_chain_def cached_currency_def
        record_currency_def defaults_after_result)
next
  case (Some k)
  with assms have own: "cache_read c k = of_optional (c k)"
    by (simp add: cache_read_own)
  show ?thesis
  proof (cases "k \<noteq> [] \<and> to_boolean (of_optional (c k))")
    case True
    with Some show ?thesis
      by (simp add: get_report_currency_def fallback_chain_def cached_currency_def
          result_of_triple own)
  next
    case False
    with Some show ?thesis
      by (auto simp: get_report_currency_def fallback_chain_def cached_currency_def
          record_currency_def defaults_after_result result_of_triple own
          split: sum.splits option.splits)
  qed
qed

lemma chain_cache_eq:
  assumes "object_prototype (case company of None \<Rightarrow> [] | Some k \<Rightarrow> k) = Undefined"
  shows "cache_of (get_report_currency f c company) = chain_cache f c company"
proof (cases company)
  case None
  then show ?thesis
    by (simp add: get_report_currency_def chain_cache_def cached_currency_def
        record_currency_def defaults_after_cache)
next
  case (Some k)
  with assms have own: "cache_read c k = of_optional (c k)"
    by (simp add: cache_read_own)
  show ?thesis
  proof (cases "k \<noteq> [] \<and> to_boolean (of_optional (c k))")
    case True
    with Some show ?thesis
      by (simp add: get_report_currency_def chain_cache_def cached_currency_def
          cache_of_triple own)
  next
    case False
    with Some show ?thesis
      by (auto simp: get_report_currency_def chain_cache_def cached_currency_def
          record_currency_def defaults_after_cache cache_of_triple own
          split: sum.splits option.splits)
  qed
qed

text \<open>
  C1. The claim is that every call returns what the ordered fallback chain gives, and
  INR when every step fails. For a company named after a property of
  \<^verbatim>\<open>Object.prototype\<close>, with nothing cached and every collaborator throwing, the chain
  gives INR; the code returns the inherited built-in function from line 17 and asks no
  collaborator.
\<close>

theorem chain_at_constructor:
  "get_report_currency broken_frappe empty_cache (Some ''constructor'')
     = (Builtin ''Object'', empty_cache, [])
   \<and> fallback_chain broken_frappe empty_cache (Some ''constructor'') = Str ''INR''
   \<and> chain_cache broken_frappe empty_cache (Some ''constructor'') = empty_cache"
  by (simp add: get_report_currency_def cache_read_def object_prototype_def
      fallback_chain_def chain_cache_def cached_currency_def record_currency_def
      global_currency_def system_currency_def empty_cache_def
      broken_frappe_def broken_get_doc_def broken_get_default_def)

text \<open>
  X4. For a company that is absent or is not named after a property of
  \<^verbatim>\<open>Object.prototype\<close>, every call of get_report_currency returns what the ordered
  fallback chain gives (the cached entry of a non-empty company first, else the company
  record's default currency, else the global default, else the system default, else
  INR) and leaves the cache that chain leaves: the record's currency stored under the
  company when the record step succeeded, the cache as it was otherwise.
\<close>

theorem get_report_currency_chain:
  assumes "object_prototype (case company of None \<Rightarrow> [] | Some k \<Rightarrow> k) = Undefined"
  shows "result_of (get_report_currency f c company) = fallback_chain f c company
   \<and> cache_of (get_report_currency f c company) = chain_cache f c company"
proof
  show "result_of (get_report_currency f c company) = fallback_chain f c company"
    using assms by (rule chain_result)
  show "cache_of (get_report_currency f c company) = chain_cache f c company"
    using assms by (rule chain_cache_eq)
qed

text \<open>
  AcmeCo on an empty cache: the chain gives the record's EUR and stores it; with EUR
  stored and the record changed to CHF the chain gives the stored EUR.
\<close>

theorem get_report_currency_chain_witness:
  "object_prototype (case Some ''AcmeCo'' of None \<Rightarrow> [] | Some k \<Rightarrow> k) = Undefined
   \<and> result_of (get_report_currency acme_frappe empty_cache (Some ''AcmeCo'')) = Str ''EUR''
   \<and> cache_of (get_report_currency acme_frappe empty_cache (Some ''AcmeCo''))
       = empty_cache(''AcmeCo'' \<mapsto> ''EUR'')
   \<and> result_of (get_report_currency acme_frappe_chf (empty_cache(''AcmeCo'' \<mapsto> ''EUR''))
        (Some ''AcmeCo'')) = Str ''EUR''
   \<and> cache_of (get_report_currency acme_frappe_chf (empty_cache(''AcmeCo'' \<mapsto> ''EUR''))
        (Some ''AcmeCo'')) = empty_cache(''AcmeCo'' \<mapsto> ''EUR'')"
proof -
  have p: "object_prototype (case Some ''AcmeCo'' of None \<Rightarrow> [] | Some k \<Rightarrow> k) = Undefined"
    by (simp add: object_prototype_def object_prototype_methods_def)
  have a: "fallback_chain acme_frappe empty_cache (Some ''AcmeCo'') = Str ''EUR''"
    by (simp add: fallback_chain_def cached_currency_def record_currency_def
        empty_cache_def acme_frappe_def acme_get_doc_def)
  have b: "chain_cache acme_frappe empty_cache (Some ''AcmeCo'')
      = empty_cache(''AcmeCo'' \<mapsto> ''EUR'')"
    by (simp add: chain_cache_def cached_currency_def record_currency_def
        empty_cache_def acme_frappe_def acme_get_doc_def)
  have c: "fallback_chain acme_frappe_chf (empty_cache(''AcmeCo'' \<mapsto> ''EUR''))
      (Some ''AcmeCo'') = Str ''EUR''"
    by (simp add: fallback_chain_def cached_currency_def)
  have d: "chain_cache acme_frappe_chf (empty_cache(''AcmeCo'' \<mapsto> ''EUR''))
      (Some ''AcmeCo'') = empty_cache(''AcmeCo'' \<mapsto> ''EUR'')"
    by (simp add: chain_cache_def cached_currency_def)
  from get_report_currency_chain [OF p, of acme_frappe empty_cache]
    get_report_currency_chain [OF p, of acme_frappe_chf "empty_cache(''AcmeCo'' \<mapsto> ''EUR'')"]
    p a b c d
  show ?thesis by simp
qed

section \<open>The cache invariant and the remaining properties\<close>

lemmas acme_defs = acme_frappe_def acme_get_doc_def acme_get_default_def
  acme_frappe_chf_def acme_get_doc_chf_def
  broken_frappe_def broken_get_doc_def broken_get_default_def

lemmas read_defs = cache_read_def object_prototype_def object_prototype_methods_def
  empty_cache_def

lemmas run_defs = get_report_currency_def defaults_after_def global_default_step_def
  system_default_step_def

lemmas symbol_defs = get_currency_symbol_def symbol_for_def symbols_read_def
  currency_symbols_def

lemmas host_defs = bare_host_def no_format_def en_us_def v8_native_source_def

lemma object_prototype_falsy:
  "\<not> to_boolean (object_prototype k) \<Longrightarrow> object_prototype k = Undefined"
  by (simp add: object_prototype_def split: if_splits)

lemma cache_read_miss:
  "\<not> to_boolean (cache_read c k) \<Longrightarrow> c k = None \<or> c k = Some []"
  by (cases "c k") (simp_all add: cache_read_def)

lemma global_default_step_calls:
  "\<exists>l. snd (global_default_step f) = GetDefault ''currency'' # l"
  by (cases "system_default_step f")
    (simp add: global_default_step_def split: sum.splits)

lemma defaults_after_shape:
  "\<exists>r l. defaults_after f c pre = (r, c, l) \<and> GetDefault ''currency'' \<in> set l"
proof -
  obtain r l where rl: "global_default_step f = (r, l)"
    by (cases "global_default_step f")
  with global_default_step_calls [of f] show ?thesis
    by (auto simp: defaults_after_def)
qed

lemma get_report_currency_hit:
  "k \<noteq> [] \<Longrightarrow> to_boolean (cache_read c k) \<Longrightarrow>
   get_report_currency f c (Some k) = (cache_read c k, c, [])"
  by (simp add: get_report_currency_def)

lemma get_report_currency_cases:
  "(\<exists>k. company = Some k \<and> k \<noteq> [] \<and> to_boolean (cache_read c k)
        \<and> get_report_currency f c company = (cache_read c k, c, []))
   \<or> (\<exists>k cur. company = Some k \<and> k \<noteq> [] \<and> cur \<noteq> [] \<and> \<not> to_boolean (cache_read c k)
        \<and> record_currency f company = Str cur
        \<and> get_report_currency f c company = (Str cur, c(k \<mapsto> cur), [GetDoc ''Company'' k]))
   \<or> (\<exists>r l. get_report_currency f c company = (r, c, l)
        \<and> GetDefault ''currency'' \<in> set l)"
proof (cases company)
  case None
  with defaults_after_shape [of f c "[]"] show ?thesis
    by (auto simp: get_report_currency_def)
next
  case (Some k)
  show ?thesis
  proof (cases "k \<noteq> [] \<and> to_boolean (cache_read c k)")
    case True
    with Some show ?thesis by (simp add: get_report_currency_def)
  next
    case False
    with Some defaults_after_shape [of f c "[]"]
      defaults_after_shape [of f c "[GetDoc ''Company'' k]"]
    show ?thesis
      by (auto simp: get_report_currency_def record_currency_def
          split: sum.splits option.splits)
  qed
qed

lemma cache_of_cases:
  "cache_of (get_report_currency f c company) = c
   \<or> (\<exists>k cur. company = Some k \<and> k \<noteq> [] \<and> cur \<noteq> [] \<and> \<not> to_boolean (cache_read c k)
         \<and> cache_of (get_report_currency f c company) = c(k \<mapsto> cur))"
  using get_report_currency_cases [of company c f]
  by (auto simp: cache_of_triple)

lemma reachable_entry:
  "reachable c \<Longrightarrow> c k = Some cur \<Longrightarrow>
   k \<noteq> [] \<and> cur \<noteq> [] \<and> object_prototype k = Undefined"
proof (induction arbitrary: k cur rule: reachable.induct)
  case start
  then show ?case by simp
next
  case (resolve c f company)
  from cache_of_cases [of f c company] show ?case
  proof
    assume "cache_of (get_report_currency f c company) = c"
    with resolve show ?thesis by simp
  next
    assume "\<exists>k' cur'. company = Some k' \<and> k' \<noteq> [] \<and> cur' \<noteq> []
      \<and> \<not> to_boolean (cache_read c k')
      \<and> cache_of (get_report_currency f c company) = c(k' \<mapsto> cur')"
    then obtain k' cur' where w: "k' \<noteq> []" "cur' \<noteq> []"
      "\<not> to_boolean (cache_read c k')"
      "cache_of (get_report_currency f c company) = c(k' \<mapsto> cur')"
      by blast
    show ?thesis
    proof (cases "k = k'")
      case False
      with resolve w show ?thesis by simp
    next
      case True
      from w(3) cache_read_miss have "c k' = None \<or> c k' = Some []" by blast
      with resolve.IH have none: "c k' = None" by (cases "c k'") auto
      with w(3) have "\<not> to_boolean (object_prototype k')"
        by (simp add: cache_read_def)
      then have "object_prototype k' = Undefined" by (rule object_prototype_falsy)
      with True resolve.prems w show ?thesis by simp
    qed
  qed
next
  case (clear c)
  then show ?case by (simp add: clear_currency_cache_def)
qed

lemma reachable_read:
  "reachable c \<Longrightarrow> c k = Some cur \<Longrightarrow> k \<noteq> [] \<and> to_boolean (cache_read c k) \<and> cache_read c k = Str cur"
  using reachable_entry [of c k cur] by (simp add: cache_read_def)

lemma entry_kept:
  assumes "reachable c" and "c k = Some cur"
  shows "cache_of (get_report_currency f c company) k = Some cur"
proof -
  from cache_of_cases [of f c company] show ?thesis
  proof
    assume "cache_of (get_report_currency f c company) = c"
    with assms show ?thesis by simp
  next
    assume "\<exists>k' cur'. company = Some k' \<and> k' \<noteq> [] \<and> cur' \<noteq> []
      \<and> \<not> to_boolean (cache_read c k')
      \<and> cache_of (get_report_currency f c company) = c(k' \<mapsto> cur')"
    then obtain k' cur' where w: "\<not> to_boolean (cache_read c k')"
      "cache_of (get_report_currency f c company) = c(k' \<mapsto> cur')"
      by blast
    from reachable_read [OF assms] w(1) have "k \<noteq> k'" by auto
    with w(2) assms show ?thesis by simp
  qed
qed

lemma resolve_all_reachable: "reachable c \<Longrightarrow> reachable (resolve_all calls c)"
  by (induction calls c rule: resolve_all.induct) (auto intro: reachable.resolve)

lemma resolve_all_kept:
  "reachable c \<Longrightarrow> c k = Some cur \<Longrightarrow> resolve_all calls c k = Some cur"
proof (induction calls arbitrary: c)
  case Nil
  then show ?case by simp
next
  case (Cons a calls)
  obtain f company where a: "a = (f, company)" by (cases a)
  from Cons.prems have "reachable (cache_of (get_report_currency f c company))"
    by (auto intro: reachable.resolve)
  moreover from Cons.prems have "cache_of (get_report_currency f c company) k = Some cur"
    by (rule entry_kept)
  ultimately show ?case using Cons.IH a by simp
qed

text \<open>
  C3. Once a company key is stored in the cache, every later call for that company
  returns the stored value and consults no collaborator, whatever resolutions for any
  company happen in between and whatever the host's records say by then; only
  clear_currency_cache ends this.
\<close>
theorem cached_value_is_kept:
  assumes "reachable c" and "c k = Some cur"
  shows "get_report_currency f (resolve_all calls c) (Some k)
           = (Str cur, resolve_all calls c, [])"
proof -
  have "reachable (resolve_all calls c)"
    using assms(1) by (rule resolve_all_reachable)
  moreover have "resolve_all calls c k = Some cur"
    using assms by (rule resolve_all_kept)
  ultimately have hit: "k \<noteq> [] \<and> to_boolean (cache_read (resolve_all calls c) k)
      \<and> cache_read (resolve_all calls c) k = Str cur"
    by (rule reachable_read)
  then have "get_report_currency f (resolve_all calls c) (Some k)
      = (cache_read (resolve_all calls c) k, resolve_all calls c, [])"
    by (intro get_report_currency_hit) blast+
  with hit show ?thesis by (simp only:)
qed

text \<open>
  AcmeCo is resolved to EUR and cached; the record then changes to CHF and other
  resolutions run; the next call still gives EUR without a look-up.
\<close>
theorem cached_value_is_kept_witness:
  "get_report_currency acme_frappe_chf
     (resolve_all [(acme_frappe_chf, None), (broken_frappe, Some ''Zeta'')]
        (cache_of (get_report_currency acme_frappe empty_cache (Some ''AcmeCo''))))
     (Some ''AcmeCo'')
   = (Str ''EUR'',
      resolve_all [(acme_frappe_chf, None), (broken_frappe, Some ''Zeta'')]
        (cache_of (get_report_currency acme_frappe empty_cache (Some ''AcmeCo''))),
      [])"
proof -
  have r: "reachable (cache_of (get_report_currency acme_frappe empty_cache (Some ''AcmeCo'')))"
    unfolding empty_cache_def by (intro reachable.resolve reachable.start)
  have e: "cache_of (get_report_currency acme_frappe empty_cache (Some ''AcmeCo'')) ''AcmeCo''
      = Some ''EUR''"
    by (simp add: run_defs read_defs acme_defs cache_of_triple)
  show ?thesis by (rule cached_value_is_kept [OF r e])
qed

lemma defaults_after_calls:
  "calls_of (defaults_after f c pre) = pre @ snd (global_default_step f)"
  by (cases "global_default_step f") (simp add: defaults_after_def calls_of_triple)

lemma get_report_currency_miss_calls:
  "k \<noteq> [] \<Longrightarrow> \<not> to_boolean (cache_read c k) \<Longrightarrow>
   \<exists>l. calls_of (get_report_currency f c (Some k)) = GetDoc ''Company'' k # l"
  by (simp add: get_report_currency_def defaults_after_calls calls_of_triple
      split: sum.splits option.splits)

text \<open>
  C7. clear_currency_cache is total and leaves the empty cache. For a company that was
  cached before, the next resolution finds no entry, asks the record store again and
  returns what the chain without the cache step gives.
\<close>
theorem clear_currency_cache_resets:
  assumes "reachable c" and "c k = Some cur"
  shows "clear_currency_cache c = Map.empty
    \<and> cache_read (clear_currency_cache c) k = Undefined
    \<and> result_of (get_report_currency f (clear_currency_cache c) (Some k))
        = first_success [record_currency f (Some k), global_currency f, system_currency f]
            (Str ''INR'')
    \<and> (\<exists>l. calls_of (get_report_currency f (clear_currency_cache c) (Some k))
          = GetDoc ''Company'' k # l)"
proof -
  from reachable_entry [OF assms] have k: "k \<noteq> []" and p: "object_prototype k = Undefined"
    by simp_all
  have miss: "cache_read (clear_currency_cache c) k = Undefined"
    by (simp add: clear_currency_cache_def cache_read_def p)
  have "result_of (get_report_currency f (clear_currency_cache c) (Some k))
      = fallback_chain f (clear_currency_cache c) (Some k)"
    using p by (intro chain_result) simp
  also have "\<dots> = first_success
      [record_currency f (Some k), global_currency f, system_currency f] (Str ''INR'')"
    by (simp add: fallback_chain_def cached_currency_def clear_currency_cache_def k)
  finally have res: "result_of (get_report_currency f (clear_currency_cache c) (Some k))
      = first_success [record_currency f (Some k), global_currency f, system_currency f]
          (Str ''INR'')" .
  from k miss have "\<exists>l. calls_of (get_report_currency f (clear_currency_cache c) (Some k))
      = GetDoc ''Company'' k # l"
    by (intro get_report_currency_miss_calls) simp_all
  with miss res show ?thesis by (simp add: clear_currency_cache_def)
qed

text \<open>
  AcmeCo was cached as EUR; after the reset and the record's change to CHF the
  resolution reads the record again and gives CHF.
\<close>
theorem clear_currency_cache_resets_witness:
  "cache_of (get_report_currency acme_frappe empty_cache (Some ''AcmeCo'')) ''AcmeCo''
     = Some ''EUR''
   \<and> clear_currency_cache
        (cache_of (get_report_currency acme_frappe empty_cache (Some ''AcmeCo'')))
       = empty_cache
   \<and> get_report_currency acme_frappe_chf
        (clear_currency_cache
           (cache_of (get_report_currency acme_frappe empty_cache (Some ''AcmeCo''))))
        (Some ''AcmeCo'')
       = (Str ''CHF'', empty_cache(''AcmeCo'' \<mapsto> ''CHF''), [GetDoc ''Company'' ''AcmeCo''])"
proof -
  have r: "reachable (cache_of (get_report_currency acme_frappe empty_cache (Some ''AcmeCo'')))"
    unfolding empty_cache_def by (intro reachable.resolve reachable.start)
  have e: "cache_of (get_report_currency acme_frappe empty_cache (Some ''AcmeCo'')) ''AcmeCo''
      = Some ''EUR''"
    by (simp add: run_defs read_defs acme_defs cache_of_triple)
  from clear_currency_cache_resets [OF r e, of acme_frappe_chf]
  have "clear_currency_cache
      (cache_of (get_report_currency acme_frappe empty_cache (Some ''AcmeCo''))) = empty_cache"
    by (simp add: empty_cache_def)
  then show ?thesis
    using e by (simp add: run_defs read_defs acme_defs)
qed

text \<open>
  C8. A call of get_report_currency either leaves the cache as it is or adds one entry,
  from the company to the default currency of its record, in the company-record step.
  Every entry present before is present after with the same value, and a call that
  went on to the global default (and so to the system default or INR) changes nothing.
\<close>
theorem get_report_currency_frame:
  assumes "reachable c"
  shows "c \<subseteq>\<^sub>m cache_of (get_report_currency f c company)
    \<and> (cache_of (get_report_currency f c company) = c
       \<or> (\<exists>k cur. company = Some k \<and> c k = None \<and> record_currency f company = Str cur
            \<and> get_report_currency f c company
                = (Str cur, c(k \<mapsto> cur), [GetDoc ''Company'' k])))
    \<and> (GetDefault ''currency'' \<in> set (calls_of (get_report_currency f c company))
         \<longrightarrow> cache_of (get_report_currency f c company) = c)"
proof -
  from get_report_currency_cases [of company c f]
  consider (hit) k where "get_report_currency f c company = (cache_read c k, c, [])"
    | (stored) k cur where "company = Some k" "cur \<noteq> []" "\<not> to_boolean (cache_read c k)"
        "record_currency f company = Str cur"
        "get_report_currency f c company = (Str cur, c(k \<mapsto> cur), [GetDoc ''Company'' k])"
    | (defaults) r l where "get_report_currency f c company = (r, c, l)"
    by blast
  then show ?thesis
  proof cases
    case hit
    then show ?thesis by (simp add: cache_of_triple calls_of_triple)
  next
    case stored
    from stored(3) cache_read_miss have "c k = None \<or> c k = Some []" by blast
    with reachable_entry [OF assms, of k "[]"] have "c k = None" by auto
    with stored show ?thesis
      by (auto simp: cache_of_triple calls_of_triple map_le_def)
  next
    case defaults
    then show ?thesis by (simp add: cache_of_triple calls_of_triple)
  qed
qed

text \<open>
  With every collaborator throwing the call reaches the defaults and the cache stays
  empty; with AcmeCo on record the call adds the one entry.
\<close>
theorem get_report_currency_frame_witness:
  "reachable empty_cache
   \<and> GetDefault ''currency'' \<in> set (calls_of (get_report_currency broken_frappe empty_cache (Some ''AcmeCo'')))
   \<and> cache_of (get_report_currency broken_frappe empty_cache (Some ''AcmeCo'')) = empty_cache
   \<and> empty_cache \<subseteq>\<^sub>m cache_of (get_report_currency acme_frappe empty_cache (Some ''AcmeCo''))
   \<and> get_report_currency acme_frappe empty_cache (Some ''AcmeCo'')
       = (Str ''EUR'', empty_cache(''AcmeCo'' \<mapsto> ''EUR''), [GetDoc ''Company'' ''AcmeCo''])"
proof -
  have r: "reachable empty_cache"
    unfolding empty_cache_def by (rule reachable.start)
  have g: "GetDefault ''currency''
      \<in> set (calls_of (get_report_currency broken_frappe empty_cache (Some ''AcmeCo'')))"
    by (simp add: run_defs read_defs acme_defs calls_of_triple)
  from get_report_currency_frame [OF r, of broken_frappe "Some ''AcmeCo''"] g
  have "cache_of (get_report_currency broken_frappe empty_cache (Some ''AcmeCo'')) = empty_cache"
    by blast
  moreover from get_report_currency_frame [OF r, of acme_frappe "Some ''AcmeCo''"]
  have "empty_cache \<subseteq>\<^sub>m cache_of (get_report_currency acme_frappe empty_cache (Some ''AcmeCo''))"
    by blast
  moreover have "get_report_currency acme_frappe empty_cache (Some ''AcmeCo'')
       = (Str ''EUR'', empty_cache(''AcmeCo'' \<mapsto> ''EUR''), [GetDoc ''Company'' ''AcmeCo''])"
    by (simp add: run_defs read_defs acme_defs)
  ultimately show ?thesis using r g by blast
qed

lemma second_call_same:
  "result_of (get_report_currency f (cache_of (get_report_currency f c company)) company)
     = result_of (get_report_currency f c company)"
proof -
  from get_report_currency_cases [of company c f]
  consider (unchanged) r l where "get_report_currency f c company = (r, c, l)"
    | (stored) k cur where "company = Some k" "k \<noteq> []" "cur \<noteq> []"
        "get_report_currency f c company = (Str cur, c(k \<mapsto> cur), [GetDoc ''Company'' k])"
    by blast
  then show ?thesis
  proof cases
    case unchanged
    then show ?thesis by (simp add: cache_of_triple)
  next
    case stored
    then show ?thesis
      by (simp add: cache_of_triple result_of_triple get_report_currency_hit cache_read_def)
  qed
qed

text \<open>
  C9. Calling get_report_currency \<open>n\<close> times in a row for one company, with the host
  unchanged and no reset in between, gives the same value every time, from any cache.
\<close>
theorem repeated_calls_agree:
  "call_n f company n c = replicate n (result_of (get_report_currency f c company))"
proof (induction n arbitrary: c)
  case 0
  show ?case by simp
next
  case (Suc n)
  show ?case by (simp add: Suc.IH second_call_same)
qed

text \<open>
  C10. With a currency argument that is neither undefined nor null,
  get_currency_symbol gives the same value for every company, cache, host and engine,
  makes no collaborator access and leaves the cache unchanged.
\<close>
theorem get_currency_symbol_given_currency:
  "get_currency_symbol src f c (Some s) company
     = (result_of (get_currency_symbol src' f' c' (Some s) company'), c, [])"
  by (simp add: get_currency_symbol_def symbol_for_def result_of_triple)

text \<open>
  An empty string is a currency argument like any other: with \<^verbatim>\<open>""\<close> neither function
  resolves anything, the symbol is \<^verbatim>\<open>""\<close> and the formatter is given \<^verbatim>\<open>""\<close>, although
  the company would resolve to EUR.
\<close>
theorem empty_currency_is_not_resolved:
  "get_currency_symbol v8_native_source acme_frappe empty_cache (Some []) (Some ''AcmeCo'')
     = (Str [], empty_cache, [])
   \<and> calls_of (format_currency_js bare_host acme_frappe empty_cache 1234.5 (Some [])
        (Some ''AcmeCo'')) = [Format (Str [])]
   \<and> result_of (get_report_currency acme_frappe empty_cache (Some ''AcmeCo'')) = Str ''EUR''"
  by (simp add: symbol_defs format_currency_js_def run_defs read_defs acme_defs
      calls_of_triple result_of_triple)

text \<open>
  C4, as amended. When the currency argument is undefined or null, get_currency_symbol
  and format_currency_js use the value of get_report_currency for the company, with
  its cache effect and its collaborator accesses. A currency argument that is a string,
  the empty string included, is used as given and nothing is resolved.
\<close>
theorem absent_currency_is_resolved:
  "get_currency_symbol src f c None company
     = (symbol_for src (result_of (get_report_currency f c company)),
        cache_of (get_report_currency f c company),
        calls_of (get_report_currency f c company))
   \<and> format_currency_js h f c amount None company
     = (format_with h amount (result_of (get_report_currency f c company)),
        cache_of (get_report_currency f c company),
        calls_of (get_report_currency f c company)
          @ [Format (result_of (get_report_currency f c company))])
   \<and> get_currency_symbol src f c (Some s) company = (symbol_for src (Str s), c, [])
   \<and> format_currency_js h f c amount (Some s) company
     = (format_with h amount (Str s), c, [Format (Str s)])"
  by (cases "get_report_currency f c company")
    (simp add: get_currency_symbol_def format_currency_js_def
      result_of_def cache_of_def calls_of_def)

text \<open>
  C6. format_currency_js never throws and always returns a string. When frappe.format
  throws, the result is the currency code, one space and the amount as toLocaleString
  renders it; for USD it therefore begins with \<^verbatim>\<open>USD \<close> followed by that rendering. The
  same holds for a currency that was resolved from the company.
\<close>
theorem format_currency_js_total:
  "(\<exists>s. result_of (format_currency_js h f c amount currency company) = Inr s)
   \<and> (frappe_format h amount (Str code) = Inl e \<longrightarrow>
        result_of (format_currency_js h f c amount (Some code) company)
          = Inr (code @ '' '' @ to_locale_string h amount))
   \<and> (frappe_format h amount (Str ''USD'') = Inl e \<longrightarrow>
        (\<exists>rest. result_of (format_currency_js h f c amount (Some ''USD'') company)
           = Inr (''USD '' @ rest)))
   \<and> (frappe_format h amount (result_of (get_report_currency f c company)) = Inl e \<longrightarrow>
        result_of (format_currency_js h f c amount None company)
          = Inr (to_string (native_source h) (result_of (get_report_currency f c company))
                 @ '' '' @ to_locale_string h amount))"
proof -
  have total: "\<exists>s. format_with h amount used = Inr s" for used
    by (cases "frappe_format h amount used") (simp_all add: format_with_def)
  have 1: "\<exists>s. result_of (format_currency_js h f c amount currency company) = Inr s"
  proof (cases currency)
    case None
    then show ?thesis
      using total by (cases "get_report_currency f c company")
        (simp add: format_currency_js_def result_of_triple)
  next
    case (Some s)
    then show ?thesis
      using total by (simp add: format_currency_js_def result_of_triple)
  qed
  have 2: "result_of (format_currency_js h f c amount (Some x) company)
        = Inr (x @ '' '' @ to_locale_string h amount)"
    if "frappe_format h amount (Str x) = Inl e" for x
    using that by (simp add: format_currency_js_def format_with_def result_of_triple)
  have 3: "result_of (format_currency_js h f c amount None company)
        = Inr (to_string (native_source h) (result_of (get_report_currency f c company))
               @ '' '' @ to_locale_string h amount)"
    if "frappe_format h amount (result_of (get_report_currency f c company)) = Inl e"
    using that by (cases "get_report_currency f c company")
      (simp add: format_currency_js_def format_with_def result_of_def)
  from 1 2 3 show ?thesis by auto
qed

text \<open>The amount 1234.5 with no formatter: for USD, and for AcmeCo resolved to EUR.\<close>
theorem format_currency_js_total_witness:
  "frappe_format bare_host 1234.5 (Str ''USD'') = Inl ReferenceError
   \<and> result_of (format_currency_js bare_host acme_frappe empty_cache 1234.5 (Some ''USD'') None)
       = Inr ''USD 1,234.5''
   \<and> frappe_format bare_host 1234.5
        (result_of (get_report_currency acme_frappe empty_cache (Some ''AcmeCo'')))
       = Inl ReferenceError
   \<and> result_of (format_currency_js bare_host acme_frappe empty_cache 1234.5 None
        (Some ''AcmeCo''))
       = Inr ''EUR 1,234.5''"
proof -
  have a: "frappe_format bare_host 1234.5 (Str ''USD'') = Inl ReferenceError"
    by (simp add: host_defs)
  have b: "frappe_format bare_host 1234.5
      (result_of (get_report_currency acme_frappe empty_cache (Some ''AcmeCo'')))
      = Inl ReferenceError"
    by (simp add: host_defs)
  have r: "result_of (get_report_currency acme_frappe empty_cache (Some ''AcmeCo''))
      = Str ''EUR''"
    by (simp add: run_defs read_defs acme_defs result_of_triple)
  from format_currency_js_total
    [where h = bare_host and f = acme_frappe and c = empty_cache and amount = "1234.5"
      and currency = None and company = None and code = "''USD''" and e = ReferenceError] a
  have "result_of (format_currency_js bare_host acme_frappe empty_cache 1234.5 (Some ''USD'')
      None) = Inr (''USD'' @ '' '' @ to_locale_string bare_host 1234.5)"
    by blast
  moreover from format_currency_js_total
    [where h = bare_host and f = acme_frappe and c = empty_cache and amount = "1234.5"
      and currency = None and company = "Some ''AcmeCo''" and code = "''USD''"
      and e = ReferenceError] b
  have "result_of (format_currency_js bare_host acme_frappe empty_cache 1234.5 None
      (Some ''AcmeCo''))
      = Inr (to_string (native_source bare_host)
          (result_of (get_report_currency acme_frappe empty_cache (Some ''AcmeCo'')))
          @ '' '' @ to_locale_string bare_host 1234.5)"
    by blast
  ultimately show ?thesis
    using a b r by (simp add: host_defs)
qed

text \<open>
  C2. The claim is that every call returns a non-empty string. For a company named
  after a property of \<^verbatim>\<open>Object.prototype\<close> the cache read of line 16 finds the inherited
  property, which is truthy, and line 17 returns it: a built-in function, not a string.
\<close>
theorem company_named_constructor:
  "get_report_currency acme_frappe empty_cache (Some ''constructor'')
     = (Builtin ''Object'', empty_cache, [])
   \<and> get_report_currency acme_frappe empty_cache (Some ''toString'')
     = (Builtin ''toString'', empty_cache, [])"
  by (simp add: run_defs read_defs)

text \<open>
  C5. The claim is that a string outside the table comes back unchanged. For a currency
  named after a property of \<^verbatim>\<open>Object.prototype\<close> the table read of line 107 finds the
  inherited property and returns it: a built-in function, not the currency code.
\<close>
theorem currency_named_constructor:
  "get_currency_symbol v8_native_source acme_frappe empty_cache (Some ''constructor'') None
     = (Builtin ''Object'', empty_cache, [])
   \<and> get_currency_symbol v8_native_source acme_frappe empty_cache (Some ''valueOf'') None
     = (Builtin ''valueOf'', empty_cache, [])"
  by (simp add: symbol_defs read_defs)

lemma truthy_optional:
  "to_boolean (of_optional v) \<Longrightarrow> \<exists>s. s \<noteq> [] \<and> of_optional v = Str s"
  by (cases v) simp_all

text \<open>
  X1. From a cache the module can be in, and for a company that is absent or is not
  named after a property of \<^verbatim>\<open>Object.prototype\<close>, get_report_currency returns a
  non-empty string, whatever the collaborators return or throw.
\<close>
theorem get_report_currency_string:
  assumes "reachable c"
    and "object_prototype (case company of None \<Rightarrow> [] | Some k \<Rightarrow> k) = Undefined"
  shows "\<exists>s. s \<noteq> [] \<and> result_of (get_report_currency f c company) = Str s"
proof -
  have d: "\<exists>s. s \<noteq> [] \<and> first_success [global_currency f, system_currency f] (Str ''INR'')
      = Str s"
    by (cases "sys_defaults_currency f"; cases "get_default f ''currency''")
      (auto simp: global_currency_def system_currency_def dest: truthy_optional)
  have cached: "\<not> to_boolean (cached_currency c company)
      \<or> (\<exists>s. s \<noteq> [] \<and> cached_currency c company = Str s)"
  proof (cases company)
    case None
    then show ?thesis by (simp add: cached_currency_def)
  next
    case (Some k)
    show ?thesis
    proof (cases "c k")
      case None
      with Some show ?thesis by (simp add: cached_currency_def)
    next
      case (Some cur)
      with reachable_entry [OF assms(1) Some] \<open>company = Some k\<close> show ?thesis
        by (simp add: cached_currency_def)
    qed
  qed
  have recorded: "\<not> to_boolean (record_currency f company)
      \<or> (\<exists>s. s \<noteq> [] \<and> record_currency f company = Str s)"
    by (auto simp: record_currency_def dest: truthy_optional
        split: option.splits sum.splits if_splits)
  from d cached recorded show ?thesis
    by (auto simp: chain_result [OF assms(2)] fallback_chain_def)
qed

text \<open>With every collaborator throwing, AcmeCo resolves to INR.\<close>
theorem get_report_currency_string_witness:
  "reachable empty_cache
   \<and> object_prototype (case Some ''AcmeCo'' of None \<Rightarrow> [] | Some k \<Rightarrow> k) = Undefined
   \<and> result_of (get_report_currency broken_frappe empty_cache (Some ''AcmeCo'')) = Str ''INR''"
proof -
  have r: "reachable empty_cache"
    unfolding empty_cache_def by (rule reachable.start)
  have p: "object_prototype (case Some ''AcmeCo'' of None \<Rightarrow> [] | Some k \<Rightarrow> k) = Undefined"
    by (simp add: read_defs)
  from get_report_currency_string [OF r p, of broken_frappe]
  have "\<exists>s. s \<noteq> [] \<and> result_of (get_report_currency broken_frappe empty_cache (Some ''AcmeCo''))
      = Str s" .
  moreover have "result_of (get_report_currency broken_frappe empty_cache (Some ''AcmeCo''))
      = Str ''INR''"
    by (simp add: run_defs read_defs acme_defs result_of_triple)
  ultimately show ?thesis using r p by blast
qed

text \<open>
  X2. For a currency code of the table get_currency_symbol returns the mapped symbol;
  for a string that is neither in the table nor the name of a property of
  \<^verbatim>\<open>Object.prototype\<close> it returns the string itself.
\<close>
theorem get_currency_symbol_table:
  "(map_of currency_symbols s = Some y \<longrightarrow>
      result_of (get_currency_symbol src f c (Some s) company) = Str y)
   \<and> (map_of currency_symbols s = None \<longrightarrow> object_prototype s = Undefined \<longrightarrow>
      result_of (get_currency_symbol src f c (Some s) company) = Str s)"
proof -
  have "y \<noteq> []" if "map_of currency_symbols s = Some y"
    using that by (auto simp: currency_symbols_def split: if_splits)
  then show ?thesis
    by (auto simp: get_currency_symbol_def symbol_for_def symbols_read_def result_of_triple)
qed

text \<open>USD gives the dollar sign, XYZ gives XYZ.\<close>
theorem get_currency_symbol_table_witness:
  "map_of currency_symbols ''USD'' = Some ''$''
   \<and> result_of (get_currency_symbol v8_native_source acme_frappe empty_cache (Some ''USD'') None)
       = Str ''$''
   \<and> map_of currency_symbols ''XYZ'' = None \<and> object_prototype ''XYZ'' = Undefined
   \<and> result_of (get_currency_symbol v8_native_source acme_frappe empty_cache (Some ''XYZ'') None)
       = Str ''XYZ''"
proof -
  have a: "map_of currency_symbols ''USD'' = Some ''$''"
    by (simp add: currency_symbols_def)
  have b: "map_of currency_symbols ''XYZ'' = None"
    by (simp add: currency_symbols_def)
  have p: "object_prototype ''XYZ'' = Undefined"
    by (simp add: read_defs)
  from get_currency_symbol_table
    [of "''USD''" "''$''" v8_native_source acme_frappe empty_cache None] a
  have "result_of (get_currency_symbol v8_native_source acme_frappe empty_cache (Some ''USD'')
      None) = Str ''$''"
    by blast
  moreover from get_currency_symbol_table
    [of "''XYZ''" "''$''" v8_native_source acme_frappe empty_cache None] b p
  have "result_of (get_currency_symbol v8_native_source acme_frappe empty_cache (Some ''XYZ'')
      None) = Str ''XYZ''"
    by blast
  ultimately show ?thesis using a b p by blast
qed

text \<open>
  X3. With no currency given and AcmeCo resolving to EUR, get_currency_symbol returns
  the euro sign, and the resolution caches AcmeCo.
\<close>
theorem acme_symbol_is_euro:
  "get_currency_symbol v8_native_source acme_frappe empty_cache None (Some ''AcmeCo'')
     = (Str [CHR 0xE2, CHR 0x82, CHR 0xAC], empty_cache(''AcmeCo'' \<mapsto> ''EUR''),
        [GetDoc ''Company'' ''AcmeCo''])"
  by (simp add: symbol_defs run_defs read_defs acme_defs)

end
